theory Spec2Isabelle
  imports Complex_Main "HOL-Library.AList" "HOL-Library.Multiset" "HOL-Library.Sublist"
begin

section \<open>Data model (types.ts)\<close>

text \<open>
  Parsed JSON values, as \<^verbatim>\<open>JSON.parse\<close> and \<^verbatim>\<open>response.json()\<close> deliver them.
  An object is an association list; a member that is absent reads as \<^verbatim>\<open>undefined\<close>,
  which is \<open>None\<close> here. Numbers are exact rationals.
\<close>

datatype json =
    JNull
  | JBool bool
  | JNum rat
  | JStr string
  | JArr "json list"
  | JObj "(string \<times> json) list"

text \<open>Property read \<^verbatim>\<open>v.k\<close> on a value that is neither null nor undefined.\<close>

fun member :: "json \<Rightarrow> string \<Rightarrow> json option" where
  "member (JObj kvs) k = map_of kvs k"
| "member _ k = None"

text \<open>JavaScript truthiness of a possibly undefined value.\<close>

fun truthy :: "json option \<Rightarrow> bool" where
  "truthy None = False"
| "truthy (Some JNull) = False"
| "truthy (Some (JBool b)) = b"
| "truthy (Some (JNum n)) = (n \<noteq> 0)"
| "truthy (Some (JStr s)) = (s \<noteq> [])"
| "truthy (Some (JArr _)) = True"
| "truthy (Some (JObj _)) = True"

record RpcEndpoint =
  url :: string
  weight :: int
  healthy :: bool
  lastCheck :: int
  avgResponseTime :: rat
  failureCount :: nat
  successCount :: nat
  consecutiveFailures :: nat
  consecutiveSuccesses :: nat

record RpcConfig =
  rpc_url :: string
  rpc_weight :: int

record HealthCheckConfig =
  enabled :: bool
  interval :: int
  hc_timeout :: int
  unhealthyThreshold :: int
  healthyThreshold :: int

section \<open>The endpoint pool (pool.ts)\<close>

text \<open>
  The pool is a \<^verbatim>\<open>Map<string, RpcEndpoint>\<close>: keys are unique and iteration follows
  insertion order, so it is an association list. \<^verbatim>\<open>Map.set\<close> replaces the value of
  a present key in place and appends a new key (\<^const>\<open>AList.update\<close>);
  \<^verbatim>\<open>Map.delete\<close> is \<^const>\<open>AList.delete\<close>. Every call of \<^verbatim>\<open>Date.now()\<close> is a
  parameter \<open>now\<close>. Log output is not part of the state and is left out.
\<close>

type_synonym pool = "(string \<times> RpcEndpoint) list"

definition addEndpoint :: "int \<Rightarrow> RpcConfig \<Rightarrow> pool \<Rightarrow> pool" where
  "addEndpoint now rpc p =
     AList.update (rpc_url rpc)
       \<lparr> url = rpc_url rpc, weight = rpc_weight rpc, healthy = True, lastCheck = now,
         avgResponseTime = 0, failureCount = 0, successCount = 0,
         consecutiveFailures = 0, consecutiveSuccesses = 0 \<rparr> p"

text \<open>The constructor adds the configured endpoints in order, each at its own time.\<close>

fun RpcPool :: "(int \<times> RpcConfig) list \<Rightarrow> pool \<Rightarrow> pool" where
  "RpcPool [] p = p"
| "RpcPool ((now, rpc) # rpcs) p = RpcPool rpcs (addEndpoint now rpc p)"

definition removeEndpoint :: "string \<Rightarrow> pool \<Rightarrow> bool \<times> pool" where
  "removeEndpoint u p = (u \<in> fst ` set p, AList.delete u p)"

definition getEndpoint :: "pool \<Rightarrow> string \<Rightarrow> RpcEndpoint option" where
  "getEndpoint p u = map_of p u"

definition getAllEndpoints :: "pool \<Rightarrow> RpcEndpoint list" where
  "getAllEndpoints p = map snd p"

definition getHealthyEndpoints :: "pool \<Rightarrow> RpcEndpoint list" where
  "getHealthyEndpoints p = filter healthy (getAllEndpoints p)"

definition getHealthyCount :: "pool \<Rightarrow> nat" where
  "getHealthyCount p = length (getHealthyEndpoints p)"

definition recordSuccess :: "string \<Rightarrow> rat \<Rightarrow> int \<Rightarrow> pool \<Rightarrow> pool" where
  "recordSuccess u responseTime now p =
     (case map_of p u of
        None \<Rightarrow> p
      | Some endpoint \<Rightarrow>
          AList.update u
            (endpoint
              \<lparr> successCount := successCount endpoint + 1,
                consecutiveSuccesses := consecutiveSuccesses endpoint + 1,
                consecutiveFailures := 0,
                lastCheck := now,
                avgResponseTime :=
                  (if avgResponseTime endpoint = 0 then responseTime
                   else avgResponseTime endpoint * (8 / 10) + responseTime * (2 / 10)) \<rparr>) p)"

definition recordFailure :: "string \<Rightarrow> int \<Rightarrow> pool \<Rightarrow> pool" where
  "recordFailure u now p =
     (case map_of p u of
        None \<Rightarrow> p
      | Some endpoint \<Rightarrow>
          AList.update u
            (endpoint
              \<lparr> failureCount := failureCount endpoint + 1,
                consecutiveFailures := consecutiveFailures endpoint + 1,
                consecutiveSuccesses := 0,
                lastCheck := now \<rparr>) p)"

definition markUnhealthy :: "string \<Rightarrow> pool \<Rightarrow> pool" where
  "markUnhealthy u p =
     (case map_of p u of
        None \<Rightarrow> p
      | Some endpoint \<Rightarrow> AList.update u (endpoint \<lparr> healthy := False \<rparr>) p)"

definition markHealthy :: "string \<Rightarrow> pool \<Rightarrow> pool" where
  "markHealthy u p =
     (case map_of p u of
        None \<Rightarrow> p
      | Some endpoint \<Rightarrow>
          AList.update u (endpoint \<lparr> healthy := True, consecutiveFailures := 0 \<rparr>) p)"

text \<open>The six mutators of the pool, as a command language.\<close>

datatype pool_op =
    AddEndpoint int RpcConfig
  | RemoveEndpoint string
  | RecordSuccess string rat int
  | RecordFailure string int
  | MarkHealthy string
  | MarkUnhealthy string

fun apply_pool_op :: "pool_op \<Rightarrow> pool \<Rightarrow> pool" where
  "apply_pool_op (AddEndpoint now rpc) p = addEndpoint now rpc p"
| "apply_pool_op (RemoveEndpoint u) p = snd (removeEndpoint u p)"
| "apply_pool_op (RecordSuccess u t now) p = recordSuccess u t now p"
| "apply_pool_op (RecordFailure u now) p = recordFailure u now p"
| "apply_pool_op (MarkHealthy u) p = markHealthy u p"
| "apply_pool_op (MarkUnhealthy u) p = markUnhealthy u p"

fun apply_pool_ops :: "pool_op list \<Rightarrow> pool \<Rightarrow> pool" where
  "apply_pool_ops [] p = p"
| "apply_pool_ops (x # xs) p = apply_pool_ops xs (apply_pool_op x p)"

section \<open>The health checker (health.ts)\<close>

text \<open>
  What one probe observes: \<^verbatim>\<open>fetch\<close> rejects (network error or abort), or an HTTP
  response arrives with a status and a body that \<^verbatim>\<open>response.json()\<close> parses or not.
\<close>

datatype http_reply =
    FetchFailed string
  | HttpResponse nat string "json option"

definition response_ok :: "nat \<Rightarrow> bool" where
  "response_ok status = (200 \<le> status \<and> status \<le> 299)"

text \<open>
  The \<^verbatim>\<open>try\<close> block of \<^verbatim>\<open>checkEndpoint\<close> up to the first pool update: \<open>True\<close> when
  nothing is thrown. Reading \<^verbatim>\<open>data.jsonrpc\<close> of \<^verbatim>\<open>null\<close> throws a TypeError.
\<close>

fun probe_succeeds :: "http_reply \<Rightarrow> bool" where
  "probe_succeeds (FetchFailed _) = False"
| "probe_succeeds (HttpResponse status _ body) =
     (if \<not> response_ok status then False
      else case body of
        None \<Rightarrow> False
      | Some JNull \<Rightarrow> False
      | Some data \<Rightarrow>
          \<not> (member data ''jsonrpc'' \<noteq> Some (JStr ''2.0'')
              \<or> (truthy (member data ''error'') \<and> \<not> truthy (member data ''result''))))"

definition checkEndpoint ::
  "HealthCheckConfig \<Rightarrow> string \<Rightarrow> http_reply \<Rightarrow> int \<Rightarrow> int \<Rightarrow> pool \<Rightarrow> pool" where
  "checkEndpoint config u reply responseTime now p =
     (if probe_succeeds reply then
        (let p1 = recordSuccess u (of_int responseTime) now p in
         case getEndpoint p1 u of
           None \<Rightarrow> p1
         | Some endpoint \<Rightarrow>
             if int (consecutiveSuccesses endpoint) \<ge> healthyThreshold config
             then markHealthy u p1 else p1)
      else
        (let p1 = recordFailure u now p in
         case getEndpoint p1 u of
           None \<Rightarrow> p1
         | Some endpoint \<Rightarrow>
             if int (consecutiveFailures endpoint) \<ge> unhealthyThreshold config
             then markUnhealthy u p1 else p1))"

text \<open>A run of probes of one endpoint: each is a reply, a measured time and a clock value.\<close>

fun run_probes ::
  "HealthCheckConfig \<Rightarrow> string \<Rightarrow> (http_reply \<times> int \<times> int) list \<Rightarrow> pool \<Rightarrow> pool" where
  "run_probes config u [] p = p"
| "run_probes config u ((reply, t, now) # rs) p =
     run_probes config u rs (checkEndpoint config u reply t now p)"

section \<open>Load balancers (balancer.ts)\<close>

text \<open>
  Every balancer reads the snapshot \<^verbatim>\<open>this.pool.getHealthyEndpoints()\<close> and returns an
  endpoint or \<^verbatim>\<open>null\<close> (\<open>None\<close>) together with its own updated private fields.
\<close>

subsection \<open>Round-robin\<close>

definition RoundRobin_selectEndpoint :: "pool \<Rightarrow> nat \<Rightarrow> RpcEndpoint option \<times> nat" where
  "RoundRobin_selectEndpoint p currentIndex =
     (let healthy = getHealthyEndpoints p in
      if length healthy = 0 then (None, currentIndex)
      else (Some (healthy ! (currentIndex mod length healthy)),
            (currentIndex + 1) mod length healthy))"

text \<open>\<open>n\<close> consecutive calls on an unchanged pool: the endpoints returned and the cursor.\<close>

fun rr_calls :: "pool \<Rightarrow> nat \<Rightarrow> nat \<Rightarrow> RpcEndpoint option list \<times> nat" where
  "rr_calls p 0 c = ([], c)"
| "rr_calls p (Suc n) c =
     (let (r, c') = RoundRobin_selectEndpoint p c;
          (rs, c'') = rr_calls p n c'
      in (r # rs, c''))"

subsection \<open>Weighted round-robin\<close>

record wrr_state =
  currentIndex :: nat
  currentWeight :: int

text \<open>
  The \<^verbatim>\<open>while (true)\<close> loop. It has no bound in the source, so it is a partial function:
  \<open>None\<close> stands for a loop that never returns. The result is the endpoint returned and
  the two fields as the loop leaves them; \<open>hs\<close> is the snapshot \<^verbatim>\<open>healthy\<close>.
\<close>

partial_function (option) wrr_loop ::
  "RpcEndpoint list \<Rightarrow> int \<Rightarrow> nat \<Rightarrow> int \<Rightarrow> (RpcEndpoint \<times> nat \<times> int) option" where
  "wrr_loop hs maxWeight ci cw =
     (let ci' = (ci + 1) mod length hs;
          cw' = (if ci' = 0 then (if cw - 1 \<le> 0 then maxWeight else cw - 1) else cw)
      in if weight (hs ! ci') \<ge> cw' then Some (hs ! ci', ci', cw')
         else wrr_loop hs maxWeight ci' cw')"

definition WeightedRoundRobin_selectEndpoint ::
  "pool \<Rightarrow> wrr_state \<Rightarrow> (RpcEndpoint option \<times> wrr_state) option" where
  "WeightedRoundRobin_selectEndpoint p st =
     (let healthy = getHealthyEndpoints p in
      if length healthy = 0 then Some (None, st)
      else
        (let maxWeight = Max (set (map weight healthy)) in
         case wrr_loop healthy maxWeight (currentIndex st) (currentWeight st) of
           None \<Rightarrow> None
         | Some (endpoint, ci, cw) \<Rightarrow>
             Some (Some endpoint, \<lparr> currentIndex = ci, currentWeight = cw \<rparr>)))"

text \<open>\<open>n\<close> consecutive calls on an unchanged pool; \<open>None\<close> if one of them never returns.\<close>

fun wrr_calls :: "pool \<Rightarrow> nat \<Rightarrow> wrr_state \<Rightarrow> (RpcEndpoint option list \<times> wrr_state) option" where
  "wrr_calls p 0 st = Some ([], st)"
| "wrr_calls p (Suc n) st =
     (case WeightedRoundRobin_selectEndpoint p st of
        None \<Rightarrow> None
      | Some (r, st') \<Rightarrow>
          (case wrr_calls p n st' of
             None \<Rightarrow> None
           | Some (rs, st'') \<Rightarrow> Some (r # rs, st'')))"

subsection \<open>Latency-based\<close>

text \<open>The comparator handed to \<^verbatim>\<open>sort\<close>.\<close>

definition compare_latency :: "RpcEndpoint \<Rightarrow> RpcEndpoint \<Rightarrow> rat" where
  "compare_latency a b =
     (if avgResponseTime a = 0 then 1
      else if avgResponseTime b = 0 then - 1
      else avgResponseTime a - avgResponseTime b)"

text \<open>
  \<^verbatim>\<open>Array.prototype.sort\<close> is a builtin of the runtime, not code of the repository. It
  is modelled as a stable insertion sort in which an element moves ahead of an earlier one
  only when the comparator, called on the later and the earlier element, is negative. The
  comparator above answers 1 for two endpoints without samples in either order; this model
  keeps such endpoints in snapshot order.
\<close>

fun sort_insert :: "('a \<Rightarrow> 'a \<Rightarrow> rat) \<Rightarrow> 'a \<Rightarrow> 'a list \<Rightarrow> 'a list" where
  "sort_insert cmp x [] = [x]"
| "sort_insert cmp x (y # ys) =
     (if cmp y x < 0 then y # sort_insert cmp x ys else x # y # ys)"

fun array_sort :: "('a \<Rightarrow> 'a \<Rightarrow> rat) \<Rightarrow> 'a list \<Rightarrow> 'a list" where
  "array_sort cmp [] = []"
| "array_sort cmp (x # xs) = sort_insert cmp x (array_sort cmp xs)"

definition LatencyBased_selectEndpoint :: "pool \<Rightarrow> RpcEndpoint option" where
  "LatencyBased_selectEndpoint p =
     (let healthy = getHealthyEndpoints p in
      if length healthy = 0 then None
      else case array_sort compare_latency healthy of
             [] \<Rightarrow> None
           | first # _ \<Rightarrow> Some first)"

section \<open>Properties stated over the model\<close>

text \<open>The two streak counters of an endpoint are never positive together.\<close>

definition streaks_exclusive :: "RpcEndpoint \<Rightarrow> bool" where
  "streaks_exclusive e =
     ((consecutiveSuccesses e > 0 \<longrightarrow> consecutiveFailures e = 0)
      \<and> (consecutiveFailures e > 0 \<longrightarrow> consecutiveSuccesses e = 0))"

definition pool_streaks :: "pool \<Rightarrow> bool" where
  "pool_streaks p = (\<forall>(k, e) \<in> set p. streaks_exclusive e)"

text \<open>
  The moving average as the specification words it: the first sample sets the average,
  every later sample \<open>s\<close> replaces it by \<open>avg * 0.8 + s * 0.2\<close>.
\<close>

fun ema_from :: "rat \<Rightarrow> rat list \<Rightarrow> rat" where
  "ema_from avg [] = avg"
| "ema_from avg (s # ss) = ema_from (avg * (8 / 10) + s * (2 / 10)) ss"





text \<open>
  A run of probes in which the streak of failures, \<open>k\<close> long so far, never reaches three.
\<close>

fun below_three :: "nat \<Rightarrow> (http_reply \<times> int \<times> int) list \<Rightarrow> bool" where
  "below_three k [] = True"
| "below_three k ((reply, t, now) # rs) =
     (if probe_succeeds reply then below_three 0 rs
      else (k + 1 < 3 \<and> below_three (k + 1) rs))"


text \<open>
  Ascending by \<open>avgResponseTime\<close> with the endpoints whose average is 0 last: \<open>a\<close> may
  stand before \<open>b\<close>.
\<close>

definition latency_le :: "RpcEndpoint \<Rightarrow> RpcEndpoint \<Rightarrow> bool" where
  "latency_le a b =
     (avgResponseTime b = 0 \<or> (avgResponseTime a \<noteq> 0 \<and> avgResponseTime a \<le> avgResponseTime b))"

section \<open>Concrete instances\<close>

text \<open>A pool of three endpoints with weights 1, 3 and 2, as the constructor builds it.\<close>

definition pool_abc :: pool where
  "pool_abc = RpcPool
     [(0, \<lparr>rpc_url = ''http://a'', rpc_weight = 1\<rparr>),
      (0, \<lparr>rpc_url = ''http://b'', rpc_weight = 3\<rparr>),
      (0, \<lparr>rpc_url = ''http://c'', rpc_weight = 2\<rparr>)] []"

definition endpoint_a :: RpcEndpoint where
  "endpoint_a = \<lparr> url = ''http://a'', weight = 1, healthy = True, lastCheck = 0,
     avgResponseTime = 0, failureCount = 0, successCount = 0,
     consecutiveFailures = 0, consecutiveSuccesses = 0 \<rparr>"

definition endpoint_b :: RpcEndpoint where
  "endpoint_b = \<lparr> url = ''http://b'', weight = 3, healthy = True, lastCheck = 0,
     avgResponseTime = 0, failureCount = 0, successCount = 0,
     consecutiveFailures = 0, consecutiveSuccesses = 0 \<rparr>"

definition endpoint_c :: RpcEndpoint where
  "endpoint_c = \<lparr> url = ''http://c'', weight = 2, healthy = True, lastCheck = 0,
     avgResponseTime = 0, failureCount = 0, successCount = 0,
     consecutiveFailures = 0, consecutiveSuccesses = 0 \<rparr>"

section \<open>Pool invariants\<close>

lemma set_update_cases:
  "(k', v') \<in> set (AList.update k v al) \<Longrightarrow> (k', v') = (k, v) \<or> (k', v') \<in> set al"
  by (induction al) (auto split: if_splits)

lemma set_delete_subset: "set (AList.delete k al) \<subseteq> set al"
  by (auto simp: AList.delete_eq)

lemma pool_streaks_update:
  "pool_streaks p \<Longrightarrow> streaks_exclusive e \<Longrightarrow> pool_streaks (AList.update k e p)"
  unfolding pool_streaks_def by (auto dest: set_update_cases)

lemma pool_streaks_lookup:
  "pool_streaks p \<Longrightarrow> map_of p k = Some e \<Longrightarrow> streaks_exclusive e"
  unfolding pool_streaks_def by (auto dest: map_of_SomeD)

lemma pool_streaks_op: "pool_streaks p \<Longrightarrow> pool_streaks (apply_pool_op x p)"
proof (cases x)
  case (AddEndpoint now rpc)
  assume "pool_streaks p"
  then show ?thesis unfolding AddEndpoint
    by (simp add: addEndpoint_def pool_streaks_update streaks_exclusive_def)
next
  case (RemoveEndpoint u)
  assume "pool_streaks p"
  then show ?thesis unfolding RemoveEndpoint using set_delete_subset[of u p]
    by (auto simp: removeEndpoint_def pool_streaks_def)
next
  case (RecordSuccess u t now)
  assume "pool_streaks p"
  then show ?thesis unfolding RecordSuccess
    by (auto simp: recordSuccess_def streaks_exclusive_def split: option.splits
             intro!: pool_streaks_update)
next
  case (RecordFailure u now)
  assume "pool_streaks p"
  then show ?thesis unfolding RecordFailure
    by (auto simp: recordFailure_def streaks_exclusive_def split: option.splits
             intro!: pool_streaks_update)
next
  case (MarkHealthy u)
  assume a: "pool_streaks p"
  show ?thesis unfolding MarkHealthy using a pool_streaks_lookup[OF a, of u]
    by (auto simp: markHealthy_def streaks_exclusive_def split: option.splits
             intro!: pool_streaks_update)
next
  case (MarkUnhealthy u)
  assume a: "pool_streaks p"
  show ?thesis unfolding MarkUnhealthy using a pool_streaks_lookup[OF a, of u]
    by (auto simp: markUnhealthy_def streaks_exclusive_def split: option.splits
             intro!: pool_streaks_update)
qed

lemma pool_streaks_ops: "pool_streaks p \<Longrightarrow> pool_streaks (apply_pool_ops xs p)"
  by (induction xs arbitrary: p) (auto simp: pool_streaks_op)

lemma pool_streaks_RpcPool: "pool_streaks p \<Longrightarrow> pool_streaks (RpcPool rpcs p)"
  by (induction rpcs p rule: RpcPool.induct)
     (auto simp: addEndpoint_def pool_streaks_update streaks_exclusive_def)

text \<open>
  C6. After pool construction and any sequence of \<open>addEndpoint\<close>, \<open>removeEndpoint\<close>,
  \<open>recordSuccess\<close>, \<open>recordFailure\<close>, \<open>markHealthy\<close> and \<open>markUnhealthy\<close>, every
  endpoint of the pool has \<open>consecutiveSuccesses > 0\<close> only with
  \<open>consecutiveFailures = 0\<close>, and \<open>consecutiveFailures > 0\<close> only with
  \<open>consecutiveSuccesses = 0\<close>.
\<close>

theorem streak_counters_exclusive:
  "\<forall>e \<in> set (getAllEndpoints (apply_pool_ops ops (RpcPool rpcs []))).
     (consecutiveSuccesses e > 0 \<longrightarrow> consecutiveFailures e = 0)
     \<and> (consecutiveFailures e > 0 \<longrightarrow> consecutiveSuccesses e = 0)"
proof -
  have "pool_streaks (apply_pool_ops ops (RpcPool rpcs []))"
    by (intro pool_streaks_ops pool_streaks_RpcPool) (simp add: pool_streaks_def)
  then show ?thesis
    by (auto simp: pool_streaks_def getAllEndpoints_def streaks_exclusive_def)
qed

theorem streak_counters_exclusive_witness:
  "(\<exists>e \<in> set (getAllEndpoints
      (apply_pool_ops [RecordFailure ''a'' 1, RecordSuccess ''a'' 5 2, MarkUnhealthy ''a'']
         (RpcPool [(0, \<lparr>rpc_url = ''a'', rpc_weight = 1\<rparr>)] []))).
      consecutiveSuccesses e > 0 \<and> consecutiveFailures e = 0)"
  using streak_counters_exclusive
    [of "[RecordFailure ''a'' 1, RecordSuccess ''a'' 5 2, MarkUnhealthy ''a'']"
        "[(0, \<lparr>rpc_url = ''a'', rpc_weight = 1\<rparr>)]"]
  by (simp add: getAllEndpoints_def addEndpoint_def recordFailure_def recordSuccess_def
        markUnhealthy_def)

section \<open>The moving average of response times\<close>

lemma map_of_update_same: "map_of (AList.update k v al) k = Some v"
  by (simp add: AList.update_conv')

lemma getEndpoint_recordSuccess:
  "getEndpoint p u = Some e \<Longrightarrow>
   getEndpoint (recordSuccess u t now p) u =
     Some (e \<lparr> successCount := successCount e + 1,
               consecutiveSuccesses := consecutiveSuccesses e + 1,
               consecutiveFailures := 0,
               lastCheck := now,
               avgResponseTime :=
                 (if avgResponseTime e = 0 then t
                  else avgResponseTime e * (8 / 10) + t * (2 / 10)) \<rparr>)"
  by (simp add: getEndpoint_def recordSuccess_def map_of_update_same)

lemma getEndpoint_recordFailure:
  "getEndpoint p u = Some e \<Longrightarrow>
   getEndpoint (recordFailure u now p) u =
     Some (e \<lparr> failureCount := failureCount e + 1,
               consecutiveFailures := consecutiveFailures e + 1,
               consecutiveSuccesses := 0,
               lastCheck := now \<rparr>)"
  by (simp add: getEndpoint_def recordFailure_def map_of_update_same)

lemma getEndpoint_markHealthy:
  "getEndpoint p u = Some e \<Longrightarrow>
   getEndpoint (markHealthy u p) u = Some (e \<lparr> healthy := True, consecutiveFailures := 0 \<rparr>)"
  by (simp add: getEndpoint_def markHealthy_def map_of_update_same)

lemma getEndpoint_markUnhealthy:
  "getEndpoint p u = Some e \<Longrightarrow>
   getEndpoint (markUnhealthy u p) u = Some (e \<lparr> healthy := False \<rparr>)"
  by (simp add: getEndpoint_def markUnhealthy_def map_of_update_same)

lemma ema_from_pos: "0 < a \<Longrightarrow> \<forall>s \<in> set ss. 0 < s \<Longrightarrow> 0 < ema_from a ss"
proof (induction ss arbitrary: a)
  case Nil then show ?case by simp
next
  case (Cons s ss)
  have "0 < a * (8 / 10) + s * (2 / 10)" using Cons.prems by (simp add: add_pos_pos)
  then show ?case using Cons by simp
qed







section \<open>Health probes\<close>

lemma checkEndpoint_failure:
  assumes "getEndpoint p u = Some e" and "\<not> probe_succeeds reply"
  shows "\<exists>e'. getEndpoint (checkEndpoint config u reply t now p) u = Some e'
           \<and> consecutiveFailures e' = consecutiveFailures e + 1
           \<and> healthy e' = (healthy e \<and> \<not> unhealthyThreshold config \<le> int (consecutiveFailures e) + 1)"
proof -
  let ?p1 = "recordFailure u now p"
  let ?e1 = "e \<lparr> failureCount := failureCount e + 1,
               consecutiveFailures := consecutiveFailures e + 1,
               consecutiveSuccesses := 0,
               lastCheck := now \<rparr>"
  have g: "getEndpoint ?p1 u = Some ?e1"
    using getEndpoint_recordFailure[OF assms(1)] .
  show ?thesis
  proof (cases "unhealthyThreshold config \<le> int (consecutiveFailures e) + 1")
    case True
    then have "checkEndpoint config u reply t now p = markUnhealthy u ?p1"
      using assms(2) g by (simp add: checkEndpoint_def Let_def)
    then show ?thesis using getEndpoint_markUnhealthy[OF g] True by simp
  next
    case False
    then have "checkEndpoint config u reply t now p = ?p1"
      using assms(2) g by (simp add: checkEndpoint_def Let_def)
    then show ?thesis using g False by simp
  qed
qed

lemma checkEndpoint_success:
  assumes "getEndpoint p u = Some e" and "probe_succeeds reply"
  shows "\<exists>e'. getEndpoint (checkEndpoint config u reply t now p) u = Some e'
           \<and> consecutiveFailures e' = 0
           \<and> healthy e' = (healthy e \<or> healthyThreshold config \<le> int (consecutiveSuccesses e) + 1)"
proof -
  let ?p1 = "recordSuccess u (of_int t) now p"
  obtain e1 where g: "getEndpoint ?p1 u = Some e1"
    and f: "consecutiveFailures e1 = 0" "healthy e1 = healthy e"
      "consecutiveSuccesses e1 = consecutiveSuccesses e + 1"
    using getEndpoint_recordSuccess[OF assms(1), of "of_int t" now] by simp
  show ?thesis
  proof (cases "healthyThreshold config \<le> int (consecutiveSuccesses e) + 1")
    case True
    then have "checkEndpoint config u reply t now p = markHealthy u ?p1"
      using assms(2) g f by (simp add: checkEndpoint_def Let_def)
    then show ?thesis using getEndpoint_markHealthy[OF g] True by simp
  next
    case False
    then have "checkEndpoint config u reply t now p = ?p1"
      using assms(2) g f by (simp add: checkEndpoint_def Let_def)
    then show ?thesis using g f False by simp
  qed
qed

lemma run_probes_keeps_endpoint:
  "getEndpoint p u = Some e \<Longrightarrow> \<exists>e'. getEndpoint (run_probes config u rs p) u = Some e'"
proof (induction config u rs p arbitrary: e rule: run_probes.induct)
  case (1 config u p)
  then show ?case by simp
next
  case (2 config u reply t now rs p)
  obtain e1 where "getEndpoint (checkEndpoint config u reply t now p) u = Some e1"
    using checkEndpoint_failure[OF "2.prems", of reply config t now]
          checkEndpoint_success[OF "2.prems", of reply config t now]
    by (cases "probe_succeeds reply") auto
  then show ?case using "2.IH" by simp
qed

lemma run_probes_append:
  "run_probes config u (rs @ rs') p = run_probes config u rs' (run_probes config u rs p)"
  by (induction config u rs p rule: run_probes.induct) auto

lemma run_probes_below_three:
  "unhealthyThreshold config = 3 \<Longrightarrow> getEndpoint p u = Some e \<Longrightarrow> healthy e \<Longrightarrow>
   consecutiveFailures e = k \<Longrightarrow> below_three k rs \<Longrightarrow>
   \<exists>e'. getEndpoint (run_probes config u rs p) u = Some e' \<and> healthy e'"
proof (induction config u rs p arbitrary: e k rule: run_probes.induct)
  case (1 config u p)
  then show ?case by simp
next
  case (2 config u reply t now rs p)
  show ?case
  proof (cases "probe_succeeds reply")
    case True
    obtain e1 where e1: "getEndpoint (checkEndpoint config u reply t now p) u = Some e1"
        "consecutiveFailures e1 = 0" "healthy e1"
      using checkEndpoint_success[OF "2.prems"(2) True, of config t now] "2.prems"(3) by auto
    have "below_three 0 rs" using "2.prems"(5) True by simp
    from "2.IH"[OF "2.prems"(1) e1(1) e1(3) e1(2) this] show ?thesis by simp
  next
    case False
    have k: "k + 1 < 3" and rest: "below_three (k + 1) rs" using "2.prems"(5) False by simp_all
    obtain e1 where e1: "getEndpoint (checkEndpoint config u reply t now p) u = Some e1"
        "consecutiveFailures e1 = k + 1" "healthy e1"
      using checkEndpoint_failure[OF "2.prems"(2) False, of config t now] "2.prems"(1,3,4) k
      by auto
    from "2.IH"[OF "2.prems"(1) e1(1) e1(3) e1(2) rest] show ?thesis by simp
  qed
qed

text \<open>
  C2. With \<open>unhealthyThreshold = 3\<close>, an endpoint that is healthy with no consecutive
  failures is still healthy after two failed probes, is unhealthy right after the third,
  and a successful probe after any run of probes leaves \<open>consecutiveFailures = 0\<close>; so as
  long as no three probes in a row fail, the endpoint stays healthy.
\<close>

theorem probe_hysteresis:
  assumes "unhealthyThreshold config = 3"
    and "getEndpoint p u = Some e" and "healthy e" and "consecutiveFailures e = 0"
    and "\<not> probe_succeeds f1" and "\<not> probe_succeeds f2" and "\<not> probe_succeeds f3"
    and "probe_succeeds s"
  shows "(\<exists>e2. getEndpoint (run_probes config u [(f1, t1, n1), (f2, t2, n2)] p) u = Some e2
            \<and> healthy e2 \<and> consecutiveFailures e2 = 2)
       \<and> (\<exists>e3. getEndpoint
                 (run_probes config u [(f1, t1, n1), (f2, t2, n2), (f3, t3, n3)] p) u = Some e3
            \<and> \<not> healthy e3 \<and> consecutiveFailures e3 = 3)
       \<and> (\<exists>e'. getEndpoint (run_probes config u (rs @ [(s, t, n)]) p) u = Some e'
            \<and> consecutiveFailures e' = 0)
       \<and> (below_three 0 rs \<longrightarrow>
            (\<exists>e'. getEndpoint (run_probes config u rs p) u = Some e' \<and> healthy e'))"
proof -
  let ?p1 = "checkEndpoint config u f1 t1 n1 p"
  obtain e1 where e1: "getEndpoint ?p1 u = Some e1" "consecutiveFailures e1 = 1" "healthy e1"
    using checkEndpoint_failure[OF assms(2,5), of config t1 n1] assms(1,3,4) by auto
  let ?p2 = "checkEndpoint config u f2 t2 n2 ?p1"
  obtain e2 where e2: "getEndpoint ?p2 u = Some e2" "consecutiveFailures e2 = 2" "healthy e2"
    using checkEndpoint_failure[OF e1(1) assms(6), of config t2 n2] assms(1) e1(2,3) by auto
  let ?p3 = "checkEndpoint config u f3 t3 n3 ?p2"
  obtain e3 where e3: "getEndpoint ?p3 u = Some e3" "consecutiveFailures e3 = 3" "\<not> healthy e3"
    using checkEndpoint_failure[OF e2(1) assms(7), of config t3 n3] assms(1) e2(2,3) by auto
  have two: "\<exists>e2. getEndpoint (run_probes config u [(f1, t1, n1), (f2, t2, n2)] p) u = Some e2
            \<and> healthy e2 \<and> consecutiveFailures e2 = 2"
    using e2 by simp
  have three: "\<exists>e3. getEndpoint
                 (run_probes config u [(f1, t1, n1), (f2, t2, n2), (f3, t3, n3)] p) u = Some e3
            \<and> \<not> healthy e3 \<and> consecutiveFailures e3 = 3"
    using e3 by simp
  obtain er where er: "getEndpoint (run_probes config u rs p) u = Some er"
    using run_probes_keeps_endpoint[OF assms(2)] by blast
  have reset: "\<exists>e'. getEndpoint (run_probes config u (rs @ [(s, t, n)]) p) u = Some e'
            \<and> consecutiveFailures e' = 0"
    using checkEndpoint_success[OF er assms(8), of config t n]
    by (auto simp: run_probes_append)
  have stay: "below_three 0 rs \<longrightarrow>
            (\<exists>e'. getEndpoint (run_probes config u rs p) u = Some e' \<and> healthy e')"
    using run_probes_below_three[OF assms(1,2,3,4)] by blast
  show ?thesis using two three reset stay by blast
qed

theorem probe_hysteresis_witness:
  "unhealthyThreshold \<lparr>enabled = True, interval = 30000, hc_timeout = 5000,
       unhealthyThreshold = 3, healthyThreshold = 2\<rparr> = 3
   \<and> \<not> probe_succeeds (HttpResponse 500 ''Internal Server Error'' None)
   \<and> probe_succeeds (HttpResponse 200 ''OK''
         (Some (JObj [(''jsonrpc'', JStr ''2.0''), (''result'', JStr ''0x10''), (''id'', JNum 1)])))
   \<and> below_three 0
        [(HttpResponse 500 ''Internal Server Error'' None, 7, 1),
         (HttpResponse 500 ''Internal Server Error'' None, 7, 2),
         (HttpResponse 200 ''OK''
            (Some (JObj [(''jsonrpc'', JStr ''2.0''), (''result'', JStr ''0x10''), (''id'', JNum 1)])),
          7, 3),
         (HttpResponse 500 ''Internal Server Error'' None, 7, 4)]
   \<and> map_option healthy (getEndpoint
        (run_probes \<lparr>enabled = True, interval = 30000, hc_timeout = 5000,
             unhealthyThreshold = 3, healthyThreshold = 2\<rparr> ''a''
           [(HttpResponse 500 ''Internal Server Error'' None, 7, 1),
            (HttpResponse 500 ''Internal Server Error'' None, 7, 2),
            (HttpResponse 500 ''Internal Server Error'' None, 7, 3)]
           (addEndpoint 0 \<lparr>rpc_url = ''a'', rpc_weight = 1\<rparr> [])) ''a'') = Some False"
  using probe_hysteresis
    [where config = "\<lparr>enabled = True, interval = 30000, hc_timeout = 5000,
         unhealthyThreshold = 3, healthyThreshold = 2\<rparr>"
       and p = "addEndpoint 0 \<lparr>rpc_url = ''a'', rpc_weight = 1\<rparr> []" and u = "''a''"
       and e = "\<lparr> url = ''a'', weight = 1, healthy = True, lastCheck = 0,
         avgResponseTime = 0, failureCount = 0, successCount = 0,
         consecutiveFailures = 0, consecutiveSuccesses = 0 \<rparr>"
       and ?f1.0 = "HttpResponse 500 ''Internal Server Error'' None"
       and ?f2.0 = "HttpResponse 500 ''Internal Server Error'' None"
       and ?f3.0 = "HttpResponse 500 ''Internal Server Error'' None"
       and s = "HttpResponse 200 ''OK''
         (Some (JObj [(''jsonrpc'', JStr ''2.0''), (''result'', JStr ''0x10''), (''id'', JNum 1)]))"
       and ?t1.0 = 7 and ?n1.0 = 1 and ?t2.0 = 7 and ?n2.0 = 2 and ?t3.0 = 7 and ?n3.0 = 3
       and rs = "[(HttpResponse 500 ''Internal Server Error'' None, 7, 1),
         (HttpResponse 500 ''Internal Server Error'' None, 7, 2),
         (HttpResponse 200 ''OK''
            (Some (JObj [(''jsonrpc'', JStr ''2.0''), (''result'', JStr ''0x10''), (''id'', JNum 1)])),
          7, 3),
         (HttpResponse 500 ''Internal Server Error'' None, 7, 4)]"]
  by (simp add: getEndpoint_def addEndpoint_def response_ok_def checkEndpoint_def
        recordFailure_def recordSuccess_def markUnhealthy_def markHealthy_def Let_def)

section \<open>Classification of a probe\<close>







end
